theory Spec2Isabelle
  imports Main "HOL-Library.Sublist"
begin

section \<open>Data model\<close>

text \<open>
  The Go error values the program passes around. \<open>nil\<close> is \<open>None\<close> of
  \<open>error option\<close>; a call that returns \<open>(value, error)\<close> from the outside world is
  a sum \<open>error + value\<close>.
\<close>

datatype error = Error string

text \<open>
  A run-time panic of the Go program: dereferencing a nil pointer, or a type assertion
  \<open>x.(T)\<close> on a value whose dynamic type does not implement \<open>T\<close>.
\<close>

datatype panic = NilDereference | InterfaceConversion

datatype 'a exec = Return 'a | Panic panic

text \<open>\<open>gmail.MessagePartBody\<close>: the fields the program reads.\<close>

record MessagePartBody =
  AttachmentId :: string
  Data :: string

text \<open>
  \<open>gmail.MessagePart\<close>: a node of the part tree, with its ordered children. The
  \<open>Body\<close> pointer and the elements of \<open>Parts\<close> are taken to be non-nil, as the
  API decodes them; the optional pointer of the program is \<open>Message.Payload\<close>.
\<close>

datatype MessagePart =
  MessagePart (PartId: string) (MimeType: string) (Filename: string)
    (Body: MessagePartBody) (Parts: "MessagePart list")

text \<open>\<open>gmail.Message\<close>: the identifier and the part tree, absent in a summary.\<close>

record Message =
  Id :: string
  Payload :: "MessagePart option"

section \<open>Filename synthesis (mail.go)\<close>

text \<open>\<open>fmt.Sprintf("%s-%s-%s.pdf", part.Filename, msg.Id, part.PartId)\<close>\<close>

definition constructFilename :: "MessagePart \<Rightarrow> Message \<Rightarrow> string" where
  "constructFilename part msg =
     Filename part @ ''-'' @ Id msg @ ''-'' @ PartId part @ ''.pdf''"

section \<open>The Mail Service and the sink\<close>

text \<open>
  The requests the program issues to the Mail Service, in the order it issues them:
  \<open>Users.Messages.List(userID)\<close> with its optional \<open>Q\<close>,
  \<open>Users.Messages.Get(userID, msgID)\<close>,
  \<open>Users.Messages.Attachments.Get(userID, msgID, attachmentID)\<close> and
  \<open>Users.Messages.BatchModify(userID, {Ids, RemoveLabelIds})\<close>.
\<close>

datatype call =
    MessagesList string "string option"
  | MessagesGet string string
  | AttachmentsGet string string string
  | BatchModify string "string list" "string list"

text \<open>
  \<open>*gmail.Service\<close>: the remote collaborator, given by what its \<open>Do()\<close> answers to
  each request during the run. Every function below that talks to it takes the log of
  the requests issued so far and returns the extended log.
\<close>

record GmailService =
  messages_list :: "string \<Rightarrow> string option \<Rightarrow> error + Message list"
  messages_get :: "string \<Rightarrow> string \<Rightarrow> error + Message"
  attachments_get :: "string \<Rightarrow> string \<Rightarrow> string \<Rightarrow> error + MessagePartBody"
  batch_modify :: "string \<Rightarrow> string list \<Rightarrow> string list \<Rightarrow> error option"

text \<open>
  The \<open>io.Writer\<close> a \<open>WriterGenerator\<close> hands back: the result of its \<open>Write\<close>,
  whether its dynamic type also implements \<open>io.Reader\<close>, and, when it implements
  \<open>io.Closer\<close>, what its \<open>Close\<close> returns.
\<close>

record Writer =
  Write :: "string \<Rightarrow> error option"
  reader :: bool
  closer :: "error option option"

record Service =
  UserID :: string
  srv :: GmailService
  DefaultQ :: string
  WriterGenerator :: "string \<Rightarrow> error + Writer"

text \<open>
  \<open>ProcessedAttachment\<close>; its fields \<open>Body\<close> and \<open>Filename\<close> carry a prefix
  here, the names being taken by the fields of \<open>MessagePart\<close>.
\<close>

record ProcessedAttachment =
  att_Body :: Writer
  att_Filename :: string

section \<open>Remote calls (mail.go, service.go)\<close>

definition ListMessages :: "Service \<Rightarrow> call list \<Rightarrow> (error + Message list) \<times> call list" where
  "ListMessages s tr =
     (let q = (if DefaultQ s \<noteq> '''' then Some (DefaultQ s) else None)
      in (messages_list (srv s) (UserID s) q, tr @ [MessagesList (UserID s) q]))"

definition retrieveMessage ::
  "GmailService \<Rightarrow> string \<Rightarrow> string \<Rightarrow> call list \<Rightarrow> (error + Message) \<times> call list" where
  "retrieveMessage g userID msgID tr =
     (messages_get g userID msgID, tr @ [MessagesGet userID msgID])"

definition retrieveAttachment ::
  "GmailService \<Rightarrow> string \<Rightarrow> Message \<Rightarrow> MessagePartBody \<Rightarrow> call list
    \<Rightarrow> (error + MessagePartBody) \<times> call list" where
  "retrieveAttachment g userID msg body tr =
     (if AttachmentId body \<noteq> '''' then
        (attachments_get g userID (Id msg) (AttachmentId body),
         tr @ [AttachmentsGet userID (Id msg) (AttachmentId body)])
      else (Inr body, tr))"

definition markAsRead ::
  "GmailService \<Rightarrow> string \<Rightarrow> Message list \<Rightarrow> call list \<Rightarrow> error option \<times> call list" where
  "markAsRead g userID msgs tr =
     (let msgIds = map Id msgs
      in (batch_modify g userID msgIds [''UNREAD''],
          tr @ [BatchModify userID msgIds [''UNREAD'']]))"

section \<open>The walk over the part tree (service.go)\<close>

text \<open>
  \<open>retrieveMessageAttachments\<close> on a non-nil part, returning the pair
  \<open>(parts, err)\<close> of the source. \<open>retrieve_children\<close> is its loop
  \<open>for _, part := range part.Parts\<close>, with the accumulated \<open>parts\<close>.
  The assignment \<open>part.Body = body\<close> writes into the tree; the program reads the
  tree again only through the returned parts, which carry the new body here.
\<close>

fun retrieveMessageAttachments ::
    "Service \<Rightarrow> Message \<Rightarrow> MessagePart \<Rightarrow> call list
      \<Rightarrow> (MessagePart list \<times> error option) \<times> call list"
  and retrieve_children ::
    "Service \<Rightarrow> Message \<Rightarrow> MessagePart list \<Rightarrow> MessagePart list \<Rightarrow> call list
      \<Rightarrow> MessagePart list \<times> call list"
where
  "retrieveMessageAttachments s msg (MessagePart pid mt fn b ps) tr =
     (if mt = ''application/pdf'' then
        (case retrieveAttachment (srv s) (UserID s) msg b tr of
           (Inl err, tr') \<Rightarrow> (([], Some err), tr')
         | (Inr body, tr') \<Rightarrow> (([MessagePart pid mt fn body ps], None), tr'))
      else
        (case retrieve_children s msg ps [] tr of
           (parts, tr') \<Rightarrow> ((parts, None), tr')))"
| "retrieve_children s msg [] parts tr = (parts, tr)"
| "retrieve_children s msg (part # rest) parts tr =
     (case retrieveMessageAttachments s msg part tr of
        ((prts, None), tr') \<Rightarrow> retrieve_children s msg rest (parts @ prts) tr'
      | ((prts, Some err), tr') \<Rightarrow> retrieve_children s msg rest parts tr')"

text \<open>
  The call \<open>srv.retrieveMessageAttachments(msg, msg.Payload)\<close> through the pointer
  \<open>msg.Payload\<close>: the first statement of the function reads \<open>part.MimeType\<close>, which
  panics on a nil part.
\<close>

definition retrieveMessageAttachments_ptr ::
    "Service \<Rightarrow> Message \<Rightarrow> MessagePart option \<Rightarrow> call list
      \<Rightarrow> (MessagePart list \<times> error option) exec \<times> call list" where
  "retrieveMessageAttachments_ptr s msg part tr =
     (case part of
        None \<Rightarrow> (Panic NilDereference, tr)
      | Some p \<Rightarrow>
          (case retrieveMessageAttachments s msg p tr of (r, tr') \<Rightarrow> (Return r, tr')))"

section \<open>Decoding and writing one attachment (service.go)\<close>

text \<open>
  \<open>processAttachment\<close>. \<open>DecodeString\<close> stands for
  \<open>base64.URLEncoding.DecodeString\<close> of the standard library, taken as a parameter.
  The last line asserts \<open>f.(io.Reader)\<close>, which panics when the writer is no reader.
  The generator is taken to return a writer or an error, never neither. The file is
  requested from the generator before the data is decoded, as in the source.
\<close>

definition processAttachment ::
    "(string \<Rightarrow> error + string) \<Rightarrow> Service \<Rightarrow> Message \<Rightarrow> MessagePart
      \<Rightarrow> (error + ProcessedAttachment) exec" where
  "processAttachment DecodeString s msg part =
     (let filename = constructFilename part msg
      in case WriterGenerator s filename of
           Inl err \<Rightarrow> Return (Inl err)
         | Inr f \<Rightarrow>
             (case DecodeString (Data (Body part)) of
                Inl err \<Rightarrow> Return (Inl err)
              | Inr fileContent \<Rightarrow>
                  (case Write f fileContent of
                     Some err \<Rightarrow> Return (Inl err)
                   | None \<Rightarrow>
                       if reader f
                       then Return (Inr \<lparr>att_Body = f, att_Filename = filename\<rparr>)
                       else Panic InterfaceConversion)))"

section \<open>The run (service.go)\<close>

text \<open>
  The inner loop \<open>for _, p := range parts\<close> of \<open>ProcessPDFAttachments\<close>. The flag
  returned is \<open>False\<close> when the loop left through \<open>continue OUTER\<close>.
\<close>

fun process_parts ::
    "(string \<Rightarrow> error + string) \<Rightarrow> Service \<Rightarrow> Message \<Rightarrow> MessagePart list
      \<Rightarrow> ProcessedAttachment list \<Rightarrow> (ProcessedAttachment list \<times> bool) exec" where
  "process_parts dec s msg [] processedAttachments = Return (processedAttachments, True)"
| "process_parts dec s msg (p # ps) processedAttachments =
     (case processAttachment dec s msg p of
        Panic e \<Rightarrow> Panic e
      | Return (Inr att) \<Rightarrow> process_parts dec s msg ps (processedAttachments @ [att])
      | Return (Inl err) \<Rightarrow> Return (processedAttachments, False))"

text \<open>
  The loop \<open>OUTER: for i, msg := range msgs\<close>, from index \<open>i\<close> on. The \<open>msg\<close> and
  \<open>err\<close> declared by the \<open>if\<close> statement are local to it: a successful fetch is
  stored into \<open>msgs[i]\<close>, and the statements after the \<open>if\<close> use the loop variable
  \<open>msg\<close>, read from \<open>msgs[i]\<close> when the iteration began.
\<close>

function outer_loop ::
    "(string \<Rightarrow> error + string) \<Rightarrow> Service \<Rightarrow> nat \<Rightarrow> Message list
      \<Rightarrow> ProcessedAttachment list \<Rightarrow> Message list \<Rightarrow> call list
      \<Rightarrow> (ProcessedAttachment list \<times> Message list) exec \<times> call list" where
  "outer_loop dec s i msgs processedAttachments processedMsgs tr =
     (if i < length msgs then
        (let msg = msgs ! i in
         case retrieveMessage (srv s) (UserID s) (Id msg) tr of (r, tr1) \<Rightarrow>
         let msgs1 = (case r of Inr msg' \<Rightarrow> msgs[i := msg'] | Inl err \<Rightarrow> msgs) in
         case retrieveMessageAttachments_ptr s msg (Payload msg) tr1 of
           (Panic e, tr2) \<Rightarrow> (Panic e, tr2)
         | (Return (parts, Some err), tr2) \<Rightarrow>
             outer_loop dec s (Suc i) msgs1 processedAttachments processedMsgs tr2
         | (Return (parts, None), tr2) \<Rightarrow>
             (case process_parts dec s msg parts processedAttachments of
                Panic e \<Rightarrow> (Panic e, tr2)
              | Return (atts, False) \<Rightarrow>
                  outer_loop dec s (Suc i) msgs1 atts processedMsgs tr2
              | Return (atts, True) \<Rightarrow>
                  outer_loop dec s (Suc i) msgs1 atts (processedMsgs @ [msg]) tr2))
      else (Return (processedAttachments, processedMsgs), tr))"
  by pat_completeness auto
termination
  by (relation "measure (\<lambda>(dec, s, i, msgs, atts, pmsgs, tr). length msgs - i)")
     (auto split: sum.splits)

declare outer_loop.simps [simp del]

text \<open>
  \<open>ProcessPDFAttachments\<close>. The parameter \<open>fileGen\<close> is not used by the source. A nil
  slice and an empty one are both \<open>[]\<close>. The result of \<open>markAsRead\<close> is dropped.
\<close>

definition ProcessPDFAttachments ::
    "(string \<Rightarrow> error + string) \<Rightarrow> Service \<Rightarrow> (string \<Rightarrow> error + Writer) \<Rightarrow> bool \<Rightarrow> call list
      \<Rightarrow> (ProcessedAttachment list \<times> error option) exec \<times> call list" where
  "ProcessPDFAttachments dec s fileGen markRead tr =
     (case ListMessages s tr of
        (Inl err, tr1) \<Rightarrow> (Return ([], Some err), tr1)
      | (Inr msgs, tr1) \<Rightarrow>
          (case outer_loop dec s 0 msgs [] [] tr1 of
             (Panic e, tr2) \<Rightarrow> (Panic e, tr2)
           | (Return (processedAttachments, processedMsgs), tr2) \<Rightarrow>
               if markRead then
                 (case markAsRead (srv s) (UserID s) processedMsgs tr2 of
                    (r, tr3) \<Rightarrow> (Return (processedAttachments, None), tr3))
               else (Return (processedAttachments, None), tr2)))"

section \<open>Bulk release (service.go)\<close>

text \<open>
  The loop of \<open>ProcessedAttachments.Close\<close>, with its variable \<open>err\<close>; \<open>closed\<close>
  records the bodies whose \<open>Close\<close> has been called, in the order of the calls.
\<close>

fun close_loop ::
    "ProcessedAttachment list \<Rightarrow> error option \<Rightarrow> Writer list \<Rightarrow> error option \<times> Writer list" where
  "close_loop [] err closed = (err, closed)"
| "close_loop (a # at) err closed =
     (case closer (att_Body a) of
        None \<Rightarrow> close_loop at err closed
      | Some er \<Rightarrow>
          close_loop at (if er \<noteq> None \<and> err = None then er else err) (closed @ [att_Body a]))"

definition Close :: "ProcessedAttachment list \<Rightarrow> error option \<times> Writer list" where
  "Close at = close_loop at None []"

section \<open>The earlier driver (mail.go, src/unnamed/part_001)\<close>

text \<open>
  \<open>processPDFFile\<close>. \<open>OpenFile\<close> stands for \<open>os.OpenFile\<close> with the flags of the
  source, taken as a parameter; the result of the deferred \<open>f.Close()\<close> is dropped by
  the source.
\<close>

definition processPDFFile ::
    "(string \<Rightarrow> error + string) \<Rightarrow> (string \<Rightarrow> error + Writer) \<Rightarrow> GmailService \<Rightarrow> string
      \<Rightarrow> MessagePart \<Rightarrow> Message \<Rightarrow> call list \<Rightarrow> error option \<times> call list" where
  "processPDFFile DecodeString OpenFile g userID part msg tr =
     (case retrieveAttachment g userID msg (Body part) tr of
        (Inl err, tr') \<Rightarrow> (Some err, tr')
      | (Inr body, tr') \<Rightarrow>
          (let filename = constructFilename part msg
           in case OpenFile filename of
                Inl err \<Rightarrow> (Some err, tr')
              | Inr f \<Rightarrow>
                  (case DecodeString (Data body) of
                     Inl err \<Rightarrow> (Some err, tr')
                   | Inr fileContent \<Rightarrow> (Write f fileContent, tr'))))"

text \<open>
  \<open>processMessagePayload\<close>, with its loop over \<open>part.Parts\<close>, which returns at the
  first error. The \<open>indent\<close> of the source only shapes what is printed.
\<close>

fun processMessagePayload ::
    "(string \<Rightarrow> error + string) \<Rightarrow> (string \<Rightarrow> error + Writer) \<Rightarrow> GmailService \<Rightarrow> string
      \<Rightarrow> Message \<Rightarrow> MessagePart \<Rightarrow> call list \<Rightarrow> error option \<times> call list"
  and payload_children ::
    "(string \<Rightarrow> error + string) \<Rightarrow> (string \<Rightarrow> error + Writer) \<Rightarrow> GmailService \<Rightarrow> string
      \<Rightarrow> Message \<Rightarrow> MessagePart list \<Rightarrow> call list \<Rightarrow> error option \<times> call list"
where
  "processMessagePayload dec opn g userID msg (MessagePart pid mt fn b ps) tr =
     (if mt = ''application/pdf'' then
        processPDFFile dec opn g userID (MessagePart pid mt fn b ps) msg tr
      else payload_children dec opn g userID msg ps tr)"
| "payload_children dec opn g userID msg [] tr = (None, tr)"
| "payload_children dec opn g userID msg (part # rest) tr =
     (case processMessagePayload dec opn g userID msg part tr of
        (Some err, tr') \<Rightarrow> (Some err, tr')
      | (None, tr') \<Rightarrow> payload_children dec opn g userID msg rest tr')"

text \<open>
  \<open>processMessage\<close>: a message without a part tree is fetched; the walk runs only when
  there is a part tree then, and the function returns nil otherwise.
\<close>

definition processMessage ::
    "(string \<Rightarrow> error + string) \<Rightarrow> (string \<Rightarrow> error + Writer) \<Rightarrow> GmailService \<Rightarrow> string
      \<Rightarrow> Message \<Rightarrow> call list \<Rightarrow> error option \<times> call list" where
  "processMessage dec opn g userID msg tr =
     (case Payload msg of
        Some payload \<Rightarrow> processMessagePayload dec opn g userID msg payload tr
      | None \<Rightarrow>
          (case retrieveMessage g userID (Id msg) tr of
             (Inl err, tr') \<Rightarrow> (None, tr')
           | (Inr msg', tr') \<Rightarrow>
               (case Payload msg' of
                  None \<Rightarrow> (None, tr')
                | Some payload \<Rightarrow> processMessagePayload dec opn g userID msg' payload tr')))"

text \<open>
  \<open>main\<close> of \<open>src/unnamed/part_001\<close>, from the listing call on: the loop that
  collects \<open>readMsgs\<close>, then the guarded \<open>markAsRead\<close>. \<open>chk\<close> ends the process
  through \<open>log.Fatalf\<close> on an error.
\<close>

fun main_loop ::
    "(string \<Rightarrow> error + string) \<Rightarrow> (string \<Rightarrow> error + Writer) \<Rightarrow> GmailService \<Rightarrow> string
      \<Rightarrow> Message list \<Rightarrow> Message list \<Rightarrow> call list \<Rightarrow> Message list \<times> call list" where
  "main_loop dec opn g subject [] readMsgs tr = (readMsgs, tr)"
| "main_loop dec opn g subject (msg # rest) readMsgs tr =
     (case processMessage dec opn g subject msg tr of
        (None, tr') \<Rightarrow> main_loop dec opn g subject rest (readMsgs @ [msg]) tr'
      | (Some err, tr') \<Rightarrow> main_loop dec opn g subject rest readMsgs tr')"

datatype exit = Exit0 | Fatal error

definition main_run ::
    "(string \<Rightarrow> error + string) \<Rightarrow> (string \<Rightarrow> error + Writer) \<Rightarrow> GmailService \<Rightarrow> string
      \<Rightarrow> string \<Rightarrow> call list \<Rightarrow> exit \<times> call list" where
  "main_run dec opn g subject q tr =
     (case messages_list g subject (Some q) of
        Inl err \<Rightarrow> (Fatal err, tr @ [MessagesList subject (Some q)])
      | Inr msgs \<Rightarrow>
          (case main_loop dec opn g subject msgs [] (tr @ [MessagesList subject (Some q)]) of
             (readMsgs, tr1) \<Rightarrow>
               if length readMsgs > 0 then
                 (case markAsRead g subject readMsgs tr1 of
                    (Some err, tr2) \<Rightarrow> (Fatal err, tr2)
                  | (None, tr2) \<Rightarrow> (Exit0, tr2))
               else (Exit0, tr1)))"

section \<open>Positions in the part tree\<close>








section \<open>What the walk visits\<close>

text \<open>
  The parts at which \<open>retrieveMessageAttachments\<close> takes its first branch, in the order
  of the recursion.
\<close>

fun walk :: "MessagePart \<Rightarrow> MessagePart list" where
  "walk (MessagePart pid mt fn b ps) =
     (if mt = ''application/pdf'' then [MessagePart pid mt fn b ps] else concat (map walk ps))"

text \<open>
  What \<open>retrieveAttachment\<close> makes of one such part: the part with its resolved body,
  or nothing when the fetch fails; the requests it issues; and the error of the call
  \<open>retrieveMessageAttachments\<close> on a part.
\<close>

definition resolve :: "Service \<Rightarrow> Message \<Rightarrow> MessagePart \<Rightarrow> MessagePart option" where
  "resolve s msg q =
     (case fst (retrieveAttachment (srv s) (UserID s) msg (Body q) []) of
        Inl err \<Rightarrow> None
      | Inr body \<Rightarrow> Some (MessagePart (PartId q) (MimeType q) (Filename q) body (Parts q)))"

definition fetches :: "Service \<Rightarrow> Message \<Rightarrow> MessagePart \<Rightarrow> call list" where
  "fetches s msg q = snd (retrieveAttachment (srv s) (UserID s) msg (Body q) [])"

definition root_error :: "Service \<Rightarrow> Message \<Rightarrow> MessagePart \<Rightarrow> error option" where
  "root_error s msg p =
     (if MimeType p = ''application/pdf'' then
        (case fst (retrieveAttachment (srv s) (UserID s) msg (Body p) []) of
           Inl err \<Rightarrow> Some err
         | Inr body \<Rightarrow> None)
      else None)"

section \<open>What the bulk release reports\<close>

definition closable :: "ProcessedAttachment \<Rightarrow> bool" where
  "closable a = (closer (att_Body a) \<noteq> None)"

definition close_error :: "ProcessedAttachment \<Rightarrow> error option" where
  "close_error a = (case closer (att_Body a) of Some (Some e) \<Rightarrow> Some e | _ \<Rightarrow> None)"

definition first_error :: "error list \<Rightarrow> error option" where
  "first_error es = (case es of [] \<Rightarrow> None | e # rest \<Rightarrow> Some e)"

section \<open>Example collaborators\<close>

text \<open>
  An in-memory sink whose resources read, write and close without error, one whose
  \<open>Close\<close> fails, and one that is no \<open>io.Closer\<close>.
\<close>

definition mem_writer :: Writer where
  "mem_writer = \<lparr>Write = (\<lambda>content. None), reader = True, closer = Some None\<rparr>"

definition failing_writer :: "string \<Rightarrow> Writer" where
  "failing_writer e =
     \<lparr>Write = (\<lambda>content. None), reader = True, closer = Some (Some (Error e))\<rparr>"

definition plain_writer :: Writer where
  "plain_writer = \<lparr>Write = (\<lambda>content. None), reader = True, closer = None\<rparr>"

text \<open>A decoder that knows one well-formed input and rejects every other.\<close>

definition example_DecodeString :: "string \<Rightarrow> error + string" where
  "example_DecodeString d =
     (if d = ''SGVsbG8='' then Inr ''Hello'' else Inl (Error ''illegal base64 data''))"

definition inline_pdf :: "string \<Rightarrow> string \<Rightarrow> MessagePart" where
  "inline_pdf pid d =
     MessagePart pid ''application/pdf'' ''statement.pdf'' \<lparr>AttachmentId = '''', Data = d\<rparr> []"

definition remote_pdf :: "string \<Rightarrow> string \<Rightarrow> MessagePart list \<Rightarrow> MessagePart" where
  "remote_pdf pid aid ps =
     MessagePart pid ''application/pdf'' ''statement.pdf'' \<lparr>AttachmentId = aid, Data = ''''\<rparr> ps"

definition container :: "string \<Rightarrow> string \<Rightarrow> MessagePart list \<Rightarrow> MessagePart" where
  "container pid mt ps = MessagePart pid mt '''' \<lparr>AttachmentId = '''', Data = ''''\<rparr> ps"

text \<open>
  A message body with a text part, a nested multipart holding an inline and a remote
  attachment, and a remote attachment that has a child of its own.
\<close>

definition example_tree :: MessagePart where
  "example_tree =
     container '''' ''multipart/mixed''
       [container ''0'' ''text/plain'' [],
        container ''1'' ''multipart/alternative''
          [inline_pdf ''1.0'' ''SGVsbG8='', remote_pdf ''1.1'' ''A1'' []],
        remote_pdf ''2'' ''A2'' [inline_pdf ''2.0'' ''SGVsbG8='']]"


text \<open>
  A Mail Service that lists \<open>listed\<close>, answers a message fetch by \<open>get\<close> and the
  batch modification by \<open>mark\<close>, and holds the attachment \<open>A2\<close> only.
\<close>

definition example_mail ::
    "Message list \<Rightarrow> (string \<Rightarrow> error + Message) \<Rightarrow> error option \<Rightarrow> GmailService" where
  "example_mail listed get mark =
     \<lparr>messages_list = (\<lambda>userID q. Inr listed),
      messages_get = (\<lambda>userID msgID. get msgID),
      attachments_get = (\<lambda>userID msgID attachmentID.
        if attachmentID = ''A2'' then Inr \<lparr>AttachmentId = '''', Data = ''SGVsbG8=''\<rparr>
        else Inl (Error ''attachment not found'')),
      batch_modify = (\<lambda>userID ids labels. mark)\<rparr>"

definition example_service :: "GmailService \<Rightarrow> Service" where
  "example_service g =
     \<lparr>UserID = ''me'', srv = g, DefaultQ = ''is:unread'',
      WriterGenerator = (\<lambda>filename. Inr mem_writer)\<rparr>"

section \<open>Filename synthesis: results\<close>

lemma split_at_last_separator:
  assumes "xs @ c # ys = xs' @ c # ys'" and "c \<notin> set ys" and "c \<notin> set ys'"
  shows "xs = xs' \<and> ys = ys'"
proof -
  from assms(1) obtain us where
    "(xs = xs' @ us \<and> us @ c # ys = c # ys') \<or> (xs @ us = xs' \<and> c # ys = us @ c # ys')"
    by (auto simp: append_eq_append_conv2)
  then show ?thesis
  proof
    assume h: "xs = xs' @ us \<and> us @ c # ys = c # ys'"
    show ?thesis
    proof (cases us)
      case Nil
      with h show ?thesis by simp
    next
      case (Cons u us')
      with h have "ys' = us' @ c # ys" by simp
      with assms(3) show ?thesis by simp
    qed
  next
    assume h: "xs @ us = xs' \<and> c # ys = us @ c # ys'"
    show ?thesis
    proof (cases us)
      case Nil
      with h show ?thesis by simp
    next
      case (Cons u us')
      with h have "ys = us' @ c # ys'" by simp
      with assms(2) show ?thesis by simp
    qed
  qed
qed

lemma constructFilename_components:
  assumes eq: "constructFilename p1 m1 = constructFilename p2 m2"
    and m1: "CHR ''-'' \<notin> set (Id m1)" and m2: "CHR ''-'' \<notin> set (Id m2)"
    and p1: "CHR ''-'' \<notin> set (PartId p1)" and p2: "CHR ''-'' \<notin> set (PartId p2)"
  shows "Filename p1 = Filename p2 \<and> Id m1 = Id m2 \<and> PartId p1 = PartId p2"
proof -
  from eq have
    "(Filename p1 @ CHR ''-'' # Id m1) @ CHR ''-'' # PartId p1
      = (Filename p2 @ CHR ''-'' # Id m2) @ CHR ''-'' # PartId p2"
    by (simp add: constructFilename_def)
  from split_at_last_separator [OF this p1 p2]
  have a: "Filename p1 @ CHR ''-'' # Id m1 = Filename p2 @ CHR ''-'' # Id m2"
    and b: "PartId p1 = PartId p2" by simp_all
  from split_at_last_separator [OF a m1 m2] b show ?thesis by simp
qed

text \<open>
  C5, as the claim states it, fails: uniqueness of the (message identifier, part
  identifier) pairs alone does not keep the synthesized names apart. The parts below have
  the distinct identifier pairs (\<open>c\<close>, \<open>d\<close>) and (\<open>b-c\<close>, \<open>d\<close>) and the same name
  \<open>a-b-c-d.pdf\<close>.
\<close>

theorem constructFilename_collision:
  "(Id \<lparr>Id = ''c'', Payload = None\<rparr>,
      PartId (MessagePart ''d'' ''application/pdf'' ''a-b'' \<lparr>AttachmentId = '''', Data = ''''\<rparr> []))
    \<noteq> (Id \<lparr>Id = ''b-c'', Payload = None\<rparr>,
      PartId (MessagePart ''d'' ''application/pdf'' ''a'' \<lparr>AttachmentId = '''', Data = ''''\<rparr> []))
   \<and> constructFilename
        (MessagePart ''d'' ''application/pdf'' ''a-b'' \<lparr>AttachmentId = '''', Data = ''''\<rparr> [])
        \<lparr>Id = ''c'', Payload = None\<rparr>
     = constructFilename
        (MessagePart ''d'' ''application/pdf'' ''a'' \<lparr>AttachmentId = '''', Data = ''''\<rparr> [])
        \<lparr>Id = ''b-c'', Payload = None\<rparr>"
  by (simp add: constructFilename_def)

text \<open>
  C5, amended: when no message identifier and no part identifier contains the separator
  \<open>-\<close>, two (part, message) pairs with distinct (message identifier, part identifier)
  pairs get distinct synthesized filenames, whatever their original filenames are.
\<close>

theorem constructFilename_injective:
  assumes "CHR ''-'' \<notin> set (Id m1)" and "CHR ''-'' \<notin> set (Id m2)"
    and "CHR ''-'' \<notin> set (PartId p1)" and "CHR ''-'' \<notin> set (PartId p2)"
    and "(Id m1, PartId p1) \<noteq> (Id m2, PartId p2)"
  shows "constructFilename p1 m1 \<noteq> constructFilename p2 m2"
  using assms constructFilename_components [of p1 m1 p2 m2] by auto

theorem constructFilename_injective_witness:
  "constructFilename
     (MessagePart ''0'' ''application/pdf'' ''statement'' \<lparr>AttachmentId = '''', Data = ''''\<rparr> [])
     \<lparr>Id = ''17f1'', Payload = None\<rparr>
   \<noteq> constructFilename
     (MessagePart ''1'' ''application/pdf'' ''statement'' \<lparr>AttachmentId = '''', Data = ''''\<rparr> [])
     \<lparr>Id = ''17f1'', Payload = None\<rparr>"
  using constructFilename_injective
    [of "\<lparr>Id = ''17f1'', Payload = None\<rparr>" "\<lparr>Id = ''17f1'', Payload = None\<rparr>"
        "MessagePart ''0'' ''application/pdf'' ''statement'' \<lparr>AttachmentId = '''', Data = ''''\<rparr> []"
        "MessagePart ''1'' ''application/pdf'' ''statement'' \<lparr>AttachmentId = '''', Data = ''''\<rparr> []"]
  by simp

section \<open>The walk: results\<close>

lemma map_filter_append:
  "List.map_filter f (xs @ ys) = List.map_filter f xs @ List.map_filter f ys"
  by (induction xs) (auto split: option.splits)















lemma retrieveAttachment_log:
  "retrieveAttachment g u m b tr
    = (fst (retrieveAttachment g u m b []), tr @ snd (retrieveAttachment g u m b []))"
  by (simp add: retrieveAttachment_def)

text \<open>
  The call on a part, and the loop over children, in closed form: the parts returned,
  the error returned and the requests issued.
\<close>

lemma retrieveMessageAttachments_walk:
  "retrieveMessageAttachments s msg p tr
    = ((List.map_filter (resolve s msg) (walk p), root_error s msg p),
       tr @ concat (map (fetches s msg) (walk p)))"
  "retrieve_children s msg cs acc tr
    = (acc @ List.map_filter (resolve s msg) (concat (map walk cs)),
       tr @ concat (map (fetches s msg) (concat (map walk cs))))"
proof (induction s msg p tr and s msg cs acc tr
    rule: retrieveMessageAttachments_retrieve_children.induct)
  case (1 s msg pid mt fn b ps tr)
  show ?case
  proof (cases "mt = ''application/pdf''")
    case True
    then show ?thesis
      using retrieveAttachment_log [of "srv s" "UserID s" msg b tr]
      by (auto simp: resolve_def fetches_def root_error_def split: sum.splits prod.splits)
  next
    case False
    with 1 show ?thesis by (simp add: root_error_def)
  qed
next
  case (2 s msg parts tr)
  show ?case by simp
next
  case (3 s msg part rest parts tr)
  show ?case
  proof (cases "root_error s msg part")
    case None
    with 3(1) 3(2) show ?thesis by (simp add: map_filter_append)
  next
    case (Some err)
    then have pdf: "MimeType part = ''application/pdf''" and "resolve s msg part = None"
      by (auto simp: root_error_def resolve_def split: if_splits sum.splits)
    then have "List.map_filter (resolve s msg) (walk part) = []"
      by (cases part) simp
    with Some 3(1) 3(3) show ?thesis by (simp add: map_filter_append)
  qed
qed



lemmas example_defs =
  example_tree_def container_def inline_pdf_def remote_pdf_def example_service_def
  example_mail_def

section \<open>The walk: claims\<close>




text \<open>
  C3. The resolver issues exactly one remote attachment fetch, and returns what that
  fetch returns, when the body carries a non-empty attachment identifier; it issues no
  fetch and returns the body unchanged when the identifier is empty. Over a tree, the
  requests added to the log are one fetch for each visited part with a non-empty
  identifier, in the order of the walk, and nothing else.
\<close>

theorem resolver_fetches:
  "(AttachmentId body \<noteq> '''' \<longrightarrow>
      retrieveAttachment g userID msg body tr
        = (attachments_get g userID (Id msg) (AttachmentId body),
           tr @ [AttachmentsGet userID (Id msg) (AttachmentId body)]))
   \<and> (AttachmentId body = '''' \<longrightarrow> retrieveAttachment g userID msg body tr = (Inr body, tr))
   \<and> snd (retrieveMessageAttachments s msg p tr)
       = tr @ map (\<lambda>q. AttachmentsGet (UserID s) (Id msg) (AttachmentId (Body q)))
                (filter (\<lambda>q. AttachmentId (Body q) \<noteq> '''') (walk p))"
proof -
  have "concat (map (fetches s msg) qs)
      = map (\<lambda>q. AttachmentsGet (UserID s) (Id msg) (AttachmentId (Body q)))
          (filter (\<lambda>q. AttachmentId (Body q) \<noteq> '''') qs)" for qs
    by (induction qs) (simp_all add: fetches_def retrieveAttachment_def)
  then show ?thesis
    by (simp add: retrieveMessageAttachments_walk(1) retrieveAttachment_def)
qed

theorem resolver_fetches_witness:
  "retrieveAttachment (example_mail [] (\<lambda>msgID. Inl (Error ''no message'')) None) ''me''
      \<lparr>Id = ''M1'', Payload = None\<rparr> \<lparr>AttachmentId = ''A2'', Data = ''''\<rparr> []
     = (Inr \<lparr>AttachmentId = '''', Data = ''SGVsbG8=''\<rparr>, [AttachmentsGet ''me'' ''M1'' ''A2''])
   \<and> retrieveAttachment (example_mail [] (\<lambda>msgID. Inl (Error ''no message'')) None) ''me''
      \<lparr>Id = ''M1'', Payload = None\<rparr> \<lparr>AttachmentId = '''', Data = ''SGVsbG8=''\<rparr> []
     = (Inr \<lparr>AttachmentId = '''', Data = ''SGVsbG8=''\<rparr>, [])
   \<and> snd (retrieveMessageAttachments
        (example_service (example_mail [] (\<lambda>msgID. Inl (Error ''no message'')) None))
        \<lparr>Id = ''M1'', Payload = None\<rparr> example_tree [])
     = [AttachmentsGet ''me'' ''M1'' ''A1'', AttachmentsGet ''me'' ''M1'' ''A2'']"
proof -
  let ?g = "example_mail [] (\<lambda>msgID. Inl (Error ''no message'')) None"
  let ?m = "\<lparr>Id = ''M1'', Payload = None\<rparr>"
  let ?remote = "\<lparr>AttachmentId = ''A2'', Data = ''''\<rparr>"
  let ?inline = "\<lparr>AttachmentId = '''', Data = ''SGVsbG8=''\<rparr>"
  note th = resolver_fetches [where g = ?g and userID = "''me''" and msg = ?m and tr = "[]"
      and s = "example_service ?g" and p = example_tree]
  have "AttachmentId ?remote \<noteq> ''''" by simp
  with th [where body = ?remote, THEN conjunct1]
  have a: "retrieveAttachment ?g ''me'' ?m ?remote []
      = (attachments_get ?g ''me'' (Id ?m) (AttachmentId ?remote),
         [] @ [AttachmentsGet ''me'' (Id ?m) (AttachmentId ?remote)])"
    by (rule mp)
  have "AttachmentId ?inline = ''''" by simp
  with th [where body = ?inline, THEN conjunct2, THEN conjunct1]
  have b: "retrieveAttachment ?g ''me'' ?m ?inline [] = (Inr ?inline, [])"
    by (rule mp)
  note c = th [where body = ?inline, THEN conjunct2, THEN conjunct2]
  from a b c show ?thesis by (simp add: example_defs)
qed

text \<open>
  C10. \<open>retrieveMessageAttachments\<close> returns a non-nil error exactly when the root part
  itself has content type \<open>application/pdf\<close>, carries an attachment identifier and its
  fetch fails. On any other root the error is nil and the list is the concatenation of
  what the calls on the children return, a child whose call fails contributing nothing;
  the list is the visited parts whose fetch did not fail, each with its resolved body.
\<close>

theorem nested_failures_discarded:
  "(snd (fst (retrieveMessageAttachments s msg p tr)) \<noteq> None \<longleftrightarrow>
      MimeType p = ''application/pdf'' \<and> AttachmentId (Body p) \<noteq> ''''
      \<and> isl (attachments_get (srv s) (UserID s) (Id msg) (AttachmentId (Body p))))
   \<and> (MimeType p \<noteq> ''application/pdf'' \<longrightarrow>
        fst (retrieveMessageAttachments s msg p tr)
          = (concat (map (\<lambda>c. fst (fst (retrieveMessageAttachments s msg c []))) (Parts p)),
             None))
   \<and> fst (fst (retrieveMessageAttachments s msg p tr)) = List.map_filter (resolve s msg) (walk p)"
proof -
  have a: "List.map_filter (resolve s msg) (concat (map walk cs))
      = concat (map (\<lambda>c. List.map_filter (resolve s msg) (walk c)) cs)" for cs
    by (induction cs) (simp_all add: map_filter_append)
  show ?thesis
    by (cases p)
       (auto simp: retrieveMessageAttachments_walk(1) root_error_def retrieveAttachment_def a
          split: sum.splits)
qed

theorem nested_failures_discarded_witness:
  "snd (fst (retrieveMessageAttachments
      (example_service (example_mail [] (\<lambda>msgID. Inl (Error ''no message'')) None))
      \<lparr>Id = ''M1'', Payload = None\<rparr> (remote_pdf ''0'' ''A1'' []) [])) \<noteq> None
   \<and> fst (retrieveMessageAttachments
      (example_service (example_mail [] (\<lambda>msgID. Inl (Error ''no message'')) None))
      \<lparr>Id = ''M1'', Payload = None\<rparr>
      (container '''' ''multipart/mixed'' [remote_pdf ''0'' ''A1'' [], inline_pdf ''1'' ''SGVsbG8='']) [])
     = ([inline_pdf ''1'' ''SGVsbG8=''], None)"
proof -
  let ?s = "example_service (example_mail [] (\<lambda>msgID. Inl (Error ''no message'')) None)"
  let ?m = "\<lparr>Id = ''M1'', Payload = None\<rparr>"
  let ?p = "container '''' ''multipart/mixed'' [remote_pdf ''0'' ''A1'' [], inline_pdf ''1'' ''SGVsbG8='']"
  have a: "snd (fst (retrieveMessageAttachments ?s ?m (remote_pdf ''0'' ''A1'' []) [])) \<noteq> None"
    unfolding nested_failures_discarded [of ?s ?m "remote_pdf ''0'' ''A1'' []" "[]", THEN conjunct1]
    by (simp add: example_defs)
  have "MimeType ?p \<noteq> ''application/pdf''" by (simp add: example_defs)
  with nested_failures_discarded [of ?s ?m ?p "[]", THEN conjunct2, THEN conjunct1]
  have "fst (retrieveMessageAttachments ?s ?m ?p [])
      = (concat (map (\<lambda>c. fst (fst (retrieveMessageAttachments ?s ?m c []))) (Parts ?p)), None)"
    by (rule mp)
  also have "\<dots> = ([inline_pdf ''1'' ''SGVsbG8=''], None)"
    by (simp add: example_defs retrieveAttachment_def)
  finally show ?thesis using a by simp
qed

section \<open>Bulk release: claims\<close>

lemma close_loop_acc:
  "close_loop at err closed
    = (if err \<noteq> None then err else first_error (List.map_filter close_error at),
       closed @ map att_Body (filter closable at))"
  by (induction at arbitrary: err closed)
     (auto simp: close_error_def closable_def first_error_def split: option.splits)

text \<open>
  C8. For every sequence of Processed Attachments, \<open>Close\<close> goes through the sequence
  once, calls \<open>Close\<close> on the body of every attachment whose body is closable, in order
  and whatever the earlier calls returned, and returns the first error among the results
  of these calls: nil when none fails or none is closable.
\<close>

theorem Close_first_error:
  "snd (Close at) = map att_Body (filter closable at)
   \<and> fst (Close at) = first_error (List.map_filter close_error at)"
  by (simp add: Close_def close_loop_acc)

theorem Close_first_error_witness:
  "Close [\<lparr>att_Body = mem_writer, att_Filename = ''a''\<rparr>,
          \<lparr>att_Body = failing_writer ''first'', att_Filename = ''b''\<rparr>,
          \<lparr>att_Body = plain_writer, att_Filename = ''c''\<rparr>,
          \<lparr>att_Body = failing_writer ''second'', att_Filename = ''d''\<rparr>,
          \<lparr>att_Body = mem_writer, att_Filename = ''e''\<rparr>]
    = (Some (Error ''first''),
       [mem_writer, failing_writer ''first'', failing_writer ''second'', mem_writer])"
  using Close_first_error
    [of "[\<lparr>att_Body = mem_writer, att_Filename = ''a''\<rparr>,
          \<lparr>att_Body = failing_writer ''first'', att_Filename = ''b''\<rparr>,
          \<lparr>att_Body = plain_writer, att_Filename = ''c''\<rparr>,
          \<lparr>att_Body = failing_writer ''second'', att_Filename = ''d''\<rparr>,
          \<lparr>att_Body = mem_writer, att_Filename = ''e''\<rparr>]"]
  by (simp add: prod_eq_iff closable_def close_error_def first_error_def
      mem_writer_def failing_writer_def plain_writer_def)

section \<open>The run: what the code does\<close>

lemmas run_defs =
  ProcessPDFAttachments_def ListMessages_def outer_loop.simps retrieveMessage_def
  retrieveMessageAttachments_ptr_def retrieveAttachment_def markAsRead_def
  processAttachment_def constructFilename_def example_DecodeString_def mem_writer_def

text \<open>
  C1. The claim asks that a message be in the mark-read set only if every matched part
  of it resolved and decoded. The listed message here carries \<open>example_tree\<close>; the fetch
  of the attachment \<open>A1\<close> of its part \<open>1.1\<close> fails. The run returns the two other
  attachments, no error, and asks for \<open>M1\<close> to be marked read.
\<close>

theorem nested_resolve_failure_marked_read:
  "ProcessPDFAttachments example_DecodeString
     (example_service (example_mail [\<lparr>Id = ''M1'', Payload = Some example_tree\<rparr>]
        (\<lambda>msgID. Inr \<lparr>Id = msgID, Payload = Some example_tree\<rparr>) None))
     (\<lambda>filename. Inr mem_writer) True []
   = (Return ([\<lparr>att_Body = mem_writer, att_Filename = ''statement.pdf-M1-1.0.pdf''\<rparr>,
               \<lparr>att_Body = mem_writer, att_Filename = ''statement.pdf-M1-2.pdf''\<rparr>], None),
      [MessagesList ''me'' (Some ''is:unread''), MessagesGet ''me'' ''M1'',
       AttachmentsGet ''me'' ''M1'' ''A1'', AttachmentsGet ''me'' ''M1'' ''A2'',
       BatchModify ''me'' [''M1''] [''UNREAD'']])"
  by (simp add: run_defs example_defs)

text \<open>
  C4. The claim asks that a listed message without a part tree whose fetch fails be
  skipped. Here the first listed message is such a one and a second message follows: the
  run panics on the first, on the nil part handed to \<open>retrieveMessageAttachments\<close>,
  and never reaches the second.
\<close>

theorem failed_fetch_panics:
  "ProcessPDFAttachments example_DecodeString
     (example_service (example_mail
        [\<lparr>Id = ''M1'', Payload = None\<rparr>,
         \<lparr>Id = ''M2'', Payload = Some (inline_pdf ''0'' ''SGVsbG8='')\<rparr>]
        (\<lambda>msgID. Inl (Error ''message fetch failed'')) None))
     (\<lambda>filename. Inr mem_writer) True []
   = (Panic NilDereference,
      [MessagesList ''me'' (Some ''is:unread''), MessagesGet ''me'' ''M1''])"
  by (simp add: run_defs example_defs)

text \<open>
  C6. The claim asks that a failure of the final batch mark-read call be reported to the
  caller. Here the one listed message is extracted and the batch modification fails: the
  run returns the attachment and a nil error.
\<close>

theorem mark_read_failure_dropped:
  "ProcessPDFAttachments example_DecodeString
     (example_service (example_mail
        [\<lparr>Id = ''M1'', Payload = Some (inline_pdf ''0'' ''SGVsbG8='')\<rparr>]
        (\<lambda>msgID. Inr \<lparr>Id = msgID, Payload = Some (inline_pdf ''0'' ''SGVsbG8='')\<rparr>)
        (Some (Error ''batch modify failed''))))
     (\<lambda>filename. Inr mem_writer) True []
   = (Return ([\<lparr>att_Body = mem_writer, att_Filename = ''statement.pdf-M1-0.pdf''\<rparr>], None),
      [MessagesList ''me'' (Some ''is:unread''), MessagesGet ''me'' ''M1'',
       BatchModify ''me'' [''M1''] [''UNREAD'']])"
  by (simp add: run_defs example_defs)

text \<open>
  C7. The claim asks that no mark-read call be issued when no message succeeded. Here
  the listing is empty and \<open>markRead\<close> is set: the run issues a batch modification
  with an empty list of identifiers.
\<close>

theorem empty_run_marks_read:
  "ProcessPDFAttachments example_DecodeString
     (example_service (example_mail [] (\<lambda>msgID. Inl (Error ''no message'')) None))
     (\<lambda>filename. Inr mem_writer) True []
   = (Return ([], None),
      [MessagesList ''me'' (Some ''is:unread''), BatchModify ''me'' [] [''UNREAD'']])"
  by (simp add: run_defs example_defs)

text \<open>
  C9. The claim asks that extraction run on the fetched message and never on an absent
  part tree. Here the listed message is a summary and its fetch returns the full
  message: the run still hands the nil part of the summary to
  \<open>retrieveMessageAttachments\<close> and panics.
\<close>

theorem summary_payload_dereferenced:
  "ProcessPDFAttachments example_DecodeString
     (example_service (example_mail [\<lparr>Id = ''M1'', Payload = None\<rparr>]
        (\<lambda>msgID. Inr \<lparr>Id = msgID, Payload = Some (inline_pdf ''0'' ''SGVsbG8='')\<rparr>) None))
     (\<lambda>filename. Inr mem_writer) True []
   = (Panic NilDereference,
      [MessagesList ''me'' (Some ''is:unread''), MessagesGet ''me'' ''M1''])"
  by (simp add: run_defs example_defs)

section \<open>The earlier driver: what it does on the same inputs\<close>

lemma processPDFFile_log:
  "processPDFFile dec opn g u q m tr
    = (fst (processPDFFile dec opn g u q m []), tr @ snd (processPDFFile dec opn g u q m []))"
  by (simp add: processPDFFile_def retrieveAttachment_def Let_def split: sum.splits)

text \<open>
  \<open>processMessagePayload\<close> goes through the same parts in the same order as
  \<open>retrieveMessageAttachments\<close>, and returns the first error it meets, at whatever
  depth.
\<close>

lemma processMessagePayload_first_error:
  "fst (processMessagePayload dec opn g u m p tr)
    = first_error (List.map_filter (\<lambda>q. fst (processPDFFile dec opn g u q m [])) (walk p))"
  "fst (payload_children dec opn g u m cs tr)
    = first_error (List.map_filter (\<lambda>q. fst (processPDFFile dec opn g u q m []))
        (concat (map walk cs)))"
proof (induction dec opn g u m p tr and dec opn g u m cs tr
    rule: processMessagePayload_payload_children.induct)
  case (1 dec opn g userID msg pid mt fn b ps tr)
  then show ?case
    using processPDFFile_log [of dec opn g userID "MessagePart pid mt fn b ps" msg tr]
    by (auto simp: first_error_def split: option.splits)
next
  case (2 dec opn g userID msg tr)
  show ?case by (simp add: first_error_def)
next
  case (3 dec opn g userID msg part rest tr)
  show ?case
  proof (cases "processMessagePayload dec opn g userID msg part tr")
    case (Pair r tr')
    show ?thesis
    proof (cases r)
      case None
      with Pair 3(1) 3(2) show ?thesis
        by (auto simp: map_filter_append first_error_def split: list.splits)
    next
      case (Some err)
      with Pair 3(1) show ?thesis
        by (auto simp: map_filter_append first_error_def split: list.splits)
    qed
  qed
qed

lemmas main_defs =
  main_run_def processMessage_def processPDFFile_def retrieveAttachment_def
  retrieveMessage_def markAsRead_def example_DecodeString_def mem_writer_def

text \<open>On the input of C1 the earlier driver leaves \<open>M1\<close> unread.\<close>

lemma main_run_nested_failure:
  "main_run example_DecodeString (\<lambda>filename. Inr mem_writer)
     (example_mail [\<lparr>Id = ''M1'', Payload = Some example_tree\<rparr>] get None) ''me'' ''is:unread'' []
   = (Exit0, [MessagesList ''me'' (Some ''is:unread''), AttachmentsGet ''me'' ''M1'' ''A1''])"
  by (simp add: main_defs example_defs)

text \<open>On the input of C6 it ends with the error of the batch modification.\<close>

lemma main_run_mark_failure:
  "main_run example_DecodeString (\<lambda>filename. Inr mem_writer)
     (example_mail [\<lparr>Id = ''M1'', Payload = Some (inline_pdf ''0'' ''SGVsbG8='')\<rparr>] get
        (Some (Error ''batch modify failed''))) ''me'' ''is:unread'' []
   = (Fatal (Error ''batch modify failed''),
      [MessagesList ''me'' (Some ''is:unread''), BatchModify ''me'' [''M1''] [''UNREAD'']])"
  by (simp add: main_defs example_defs)

text \<open>On the input of C7 it issues no batch modification.\<close>

lemma main_run_empty:
  "main_run dec opn (example_mail [] get mark) ''me'' ''is:unread'' []
   = (Exit0, [MessagesList ''me'' (Some ''is:unread'')])"
  by (simp add: main_run_def example_mail_def)

text \<open>
  On a summary whose fetch fails (the first message of C4) it does not panic: it skips
  the walk, and since \<open>processMessage\<close> returns nil it marks the message read.
\<close>

lemma main_run_failed_fetch:
  "main_run example_DecodeString (\<lambda>filename. Inr mem_writer)
     (example_mail [\<lparr>Id = ''M1'', Payload = None\<rparr>]
        (\<lambda>msgID. Inl (Error ''message fetch failed'')) None) ''me'' ''is:unread'' []
   = (Exit0, [MessagesList ''me'' (Some ''is:unread''), MessagesGet ''me'' ''M1'',
        BatchModify ''me'' [''M1''] [''UNREAD'']])"
  by (simp add: main_defs example_defs)

end
